theory Spec2Isabelle
  imports Main "HOL-Library.Multiset"
begin

section \<open>The diff change extractor of \<^verbatim>\<open>git_history_gen/cli.py\<close>\<close>

text \<open>
  The development embeds \<^verbatim>\<open>iter_changes\<close> (lines 63 to 123 of
  \<^verbatim>\<open>src/git_history_gen/cli.py\<close>): a generator that scans the lines of a
  unified diff and yields one dict per added or deleted line.

  Conventions of the embedding.
  \<^item> A Python \<^verbatim>\<open>str\<close> is a \<^typ>\<open>string\<close>; a \<^typ>\<open>char\<close> is read as a code
    point below 256. Code points from 256 on (among them the non-Latin decimal digits and
    spaces that \<^verbatim>\<open>int\<close> and \<^verbatim>\<open>strip\<close> accept) are outside the model.
  \<^item> A Python \<^verbatim>\<open>int\<close> is an \<^typ>\<open>int\<close>. The interpreter's limit on the
    number of digits that \<^verbatim>\<open>int\<close> converts is not modelled.
  \<^item> A variable that holds \<^verbatim>\<open>None\<close> or a value is an \<^typ>\<open>'a option\<close>.
  \<^item> A raised exception is the left summand of the result.
  \<^item> The generator is the list of the dicts it yields, in order.
\<close>

subsection \<open>Data\<close>

datatype py_error = IndexError | ValueError | TypeError

text \<open>The key \<^verbatim>\<open>'type'\<close> of a yielded dict: \<^verbatim>\<open>'add'\<close> or \<^verbatim>\<open>'del'\<close>.\<close>

datatype change_type = Add | Del

text \<open>The yielded dict, with the keys \<^verbatim>\<open>file\<close>, \<^verbatim>\<open>line\<close>, \<^verbatim>\<open>type\<close>, \<^verbatim>\<open>text\<close>.\<close>

record change =
  ch_file :: string
  ch_line :: int
  ch_type :: change_type
  ch_text :: string

text \<open>The three local variables of the loop (lines 73 to 75).\<close>

record cursor =
  cur_file :: "string option"
  old_line :: "int option"
  new_line :: "int option"

subsection \<open>String operations of Python\<close>

text \<open>\<^verbatim>\<open>s.startswith(p)\<close>\<close>

definition startswith :: "string \<Rightarrow> string \<Rightarrow> bool" where
  "startswith s p \<longleftrightarrow> take (length p) s = p"

text \<open>\<^verbatim>\<open>sub in s\<close>\<close>

fun contains :: "string \<Rightarrow> string \<Rightarrow> bool" where
  "contains sub [] \<longleftrightarrow> sub = []"
| "contains sub (c # cs) \<longleftrightarrow> startswith (c # cs) sub \<or> contains sub cs"

text \<open>\<^verbatim>\<open>s.rstrip("\n")\<close>: every trailing line feed is removed.\<close>

definition rstrip_nl :: "string \<Rightarrow> string" where
  "rstrip_nl s = rev (dropWhile (\<lambda>c. c = CHR 0x0A) (rev s))"

text \<open>
  \<^verbatim>\<open>str.isspace\<close> on a code point below 256: the controls 9 to 13 and 28 to 31,
  the space, NEL (133) and the no-break space (160).
\<close>

definition is_space :: "char \<Rightarrow> bool" where
  "is_space c \<longleftrightarrow>
     (let n = (of_char c :: nat)
      in (9 \<le> n \<and> n \<le> 13) \<or> (28 \<le> n \<and> n \<le> 31) \<or> n = 32 \<or> n = 133 \<or> n = 160)"

text \<open>\<^verbatim>\<open>s.strip()\<close>\<close>

definition strip :: "string \<Rightarrow> string" where
  "strip s = rev (dropWhile is_space (rev (dropWhile is_space s)))"

text \<open>
  \<^verbatim>\<open>s.split(sep)\<close> for a separator that is not empty: the pieces between the
  occurrences of \<open>sep\<close>, found from the left without overlap. The result always has
  at least one piece.
\<close>

fun split :: "string \<Rightarrow> string \<Rightarrow> string list" where
  "split sep [] = [[]]"
| "split sep (c # cs) =
     (if startswith (c # cs) sep then [] # split sep (drop (length sep - 1) cs)
      else (case split sep cs of
              [] \<Rightarrow> [[c]]
            | w # ws \<Rightarrow> (c # w) # ws))"

subsection \<open>\<^verbatim>\<open>int(s)\<close> on a string\<close>

text \<open>
  The spaces that \<^verbatim>\<open>int\<close> skips at both ends: the C spaces (9 to 13 and 32), and
  the two spaces above 127, which the conversion first turns into a space. The controls
  28 to 31 are no spaces here.
\<close>

definition is_int_space :: "char \<Rightarrow> bool" where
  "is_int_space c \<longleftrightarrow>
     (let n = (of_char c :: nat)
      in (9 \<le> n \<and> n \<le> 13) \<or> n = 32 \<or> n = 133 \<or> n = 160)"

definition digit_val :: "char \<Rightarrow> nat option" where
  "digit_val c =
     (let n = (of_char c :: nat)
      in if 48 \<le> n \<and> n \<le> 57 then Some (n - 48) else None)"

text \<open>
  The digits after the first one: a single underscore may stand between two digits.
\<close>

fun py_digits :: "nat \<Rightarrow> string \<Rightarrow> nat option" where
  "py_digits acc [] = Some acc"
| "py_digits acc (c # cs) =
     (if c = CHR ''_'' then
        (case cs of
           [] \<Rightarrow> None
         | d # ds \<Rightarrow>
             (case digit_val d of
                None \<Rightarrow> None
              | Some v \<Rightarrow> py_digits (10 * acc + v) ds))
      else
        (case digit_val c of
           None \<Rightarrow> None
         | Some v \<Rightarrow> py_digits (10 * acc + v) cs))"

definition py_nat :: "string \<Rightarrow> nat option" where
  "py_nat s =
     (case s of
        [] \<Rightarrow> None
      | c # cs \<Rightarrow>
          (case digit_val c of
             None \<Rightarrow> None
           | Some v \<Rightarrow> py_digits v cs))"

text \<open>
  \<^verbatim>\<open>int(s)\<close>, base ten: spaces at both ends, an optional sign, then the digits.
  Anything else raises \<^verbatim>\<open>ValueError\<close>.
\<close>

definition py_int :: "string \<Rightarrow> py_error + int" where
  "py_int s =
     (let t = rev (dropWhile is_int_space (rev (dropWhile is_int_space s)))
      in case t of
           [] \<Rightarrow> Inl ValueError
         | c # cs \<Rightarrow>
             (if c = CHR ''-'' then
                (case py_nat cs of None \<Rightarrow> Inl ValueError | Some n \<Rightarrow> Inr (- int n))
              else if c = CHR ''+'' then
                (case py_nat cs of None \<Rightarrow> Inl ValueError | Some n \<Rightarrow> Inr (int n))
              else
                (case py_nat t of None \<Rightarrow> Inl ValueError | Some n \<Rightarrow> Inr (int n))))"

subsection \<open>The hunk header\<close>

text \<open>
  The body of the \<^verbatim>\<open>try\<close> block (lines 99 to 102):
  \<^verbatim>\<open>
    header = line.split("@@")[1].strip()
    left, right = header.split(" ")
    old_start = int(left.split(",")[0][1:])
    new_start = int(right.split(",")[0][1:])
  \<close>
  Indexing past the end raises \<^verbatim>\<open>IndexError\<close>; unpacking anything but two pieces
  raises \<^verbatim>\<open>ValueError\<close>.
\<close>

definition start_of :: "string \<Rightarrow> py_error + int" where
  "start_of part =
     (case split '','' part of
        [] \<Rightarrow> Inl IndexError
      | p # _ \<Rightarrow> py_int (drop 1 p))"

definition parse_hunk :: "string \<Rightarrow> py_error + (int \<times> int)" where
  "parse_hunk line =
     (case split ''@@'' line of
        _ # h # _ \<Rightarrow>
          (case split '' '' (strip h) of
             [left, right] \<Rightarrow>
               (case start_of left of
                  Inl e \<Rightarrow> Inl e
                | Inr old_start \<Rightarrow>
                    (case start_of right of
                       Inl e \<Rightarrow> Inl e
                     | Inr new_start \<Rightarrow> Inr (old_start, new_start)))
           | _ \<Rightarrow> Inl ValueError)
      | _ \<Rightarrow> Inl IndexError)"

subsection \<open>The loop\<close>

text \<open>\<^verbatim>\<open>n += 1\<close> on a variable that may hold \<^verbatim>\<open>None\<close>.\<close>

definition incr :: "int option \<Rightarrow> py_error + int option" where
  "incr v = (case v of None \<Rightarrow> Inl TypeError | Some n \<Rightarrow> Inr (Some (n + 1)))"

text \<open>
  The dict of a \<^verbatim>\<open>yield\<close>. The record types its fields as the docstring does, so
  a \<^verbatim>\<open>None\<close> for the file or the line is a \<^verbatim>\<open>TypeError\<close> of the model.
\<close>

definition mk_change ::
  "string option \<Rightarrow> int option \<Rightarrow> change_type \<Rightarrow> string \<Rightarrow> py_error + change" where
  "mk_change f n t txt =
     (case (f, n) of
        (Some f', Some n') \<Rightarrow>
          Inr \<lparr>ch_file = f', ch_line = n', ch_type = t, ch_text = txt\<rparr>
      | _ \<Rightarrow> Inl TypeError)"

text \<open>
  The end of the loop body (lines 109 to 123), reached by a line that is no header:
  the guard on the three variables, the lines that are skipped, and the three kinds of
  content line.
\<close>

definition content :: "cursor \<Rightarrow> string \<Rightarrow> py_error + (cursor \<times> change list)" where
  "content c line =
     (if cur_file c = None \<or> old_line c = None \<or> new_line c = None then Inr (c, [])
      else if line = [] \<or> startswith line (CHR 0x5C # '' No newline at end of file'') then
        Inr (c, [])
      else if startswith line ''+'' then
        (case mk_change (cur_file c) (new_line c) Add (drop 1 line) of
           Inl e \<Rightarrow> Inl e
         | Inr r \<Rightarrow>
             (case incr (new_line c) of
                Inl e \<Rightarrow> Inl e
              | Inr n \<Rightarrow> Inr (c\<lparr>new_line := n\<rparr>, [r])))
      else if startswith line ''-'' then
        (case mk_change (cur_file c) (old_line c) Del (drop 1 line) of
           Inl e \<Rightarrow> Inl e
         | Inr r \<Rightarrow>
             (case incr (old_line c) of
                Inl e \<Rightarrow> Inl e
              | Inr n \<Rightarrow> Inr (c\<lparr>old_line := n\<rparr>, [r])))
      else
        (case incr (old_line c) of
           Inl e \<Rightarrow> Inl e
         | Inr n \<Rightarrow>
             (case incr (new_line c) of
                Inl e \<Rightarrow> Inl e
              | Inr m \<Rightarrow> Inr (c\<lparr>old_line := n, new_line := m\<rparr>, []))))"

text \<open>
  One iteration of the \<^verbatim>\<open>for\<close> loop (lines 78 to 123): the cursor after the
  line and the dicts yielded for it. The tests are made in the order of the source. The
  \<^verbatim>\<open>except Exception\<close> of line 105 catches each error of \<open>parse_hunk\<close>.
\<close>

definition step :: "cursor \<Rightarrow> string \<Rightarrow> py_error + (cursor \<times> change list)" where
  "step c raw =
     (let line = rstrip_nl raw in
      if startswith line ''diff --git '' then Inr (c\<lparr>cur_file := None\<rparr>, [])
      else if startswith line ''+++ '' then
        (let path = drop 4 line
         in Inr (c\<lparr>cur_file := (if startswith path ''b/'' then Some (drop 2 path) else None)\<rparr>, []))
      else if startswith line ''--- '' then Inr (c, [])
      else if contains ''Binary files'' line \<or> startswith line ''GIT binary patch'' then
        Inr (c\<lparr>cur_file := None\<rparr>, [])
      else if startswith line ''@@ '' then
        (case parse_hunk line of
           Inr (old_start, new_start) \<Rightarrow>
             Inr (c\<lparr>old_line := Some old_start, new_line := Some new_start\<rparr>, [])
         | Inl e \<Rightarrow> Inr (c\<lparr>old_line := None, new_line := None\<rparr>, []))
      else content c line)"

text \<open>The loop over the lines, from a given cursor.\<close>

fun run :: "cursor \<Rightarrow> string list \<Rightarrow> py_error + (cursor \<times> change list)" where
  "run c [] = Inr (c, [])"
| "run c (raw # rest) =
     (case step c raw of
        Inl e \<Rightarrow> Inl e
      | Inr (c', out) \<Rightarrow>
          (case run c' rest of
             Inl e \<Rightarrow> Inl e
           | Inr (c'', outs) \<Rightarrow> Inr (c'', out @ outs)))"

definition init :: cursor where
  "init = \<lparr>cur_file = None, old_line = None, new_line = None\<rparr>"

definition iter_changes :: "string list \<Rightarrow> py_error + change list" where
  "iter_changes diff_lines =
     (case run init diff_lines of
        Inl e \<Rightarrow> Inl e
      | Inr (_, out) \<Rightarrow> Inr out)"

subsection \<open>Kinds of line, as the loop tells them apart\<close>

text \<open>A line that the test of line 81 takes: the opening line of a file section.\<close>

definition is_file_sep :: "string \<Rightarrow> bool" where
  "is_file_sep raw \<longleftrightarrow> startswith (rstrip_nl raw) ''diff --git ''"

text \<open>A line that the test of line 84 takes: the header of the new file.\<close>

definition is_new_path :: "string \<Rightarrow> bool" where
  "is_new_path raw \<longleftrightarrow> startswith (rstrip_nl raw) ''+++ ''"

text \<open>Such a header with the prefix \<^verbatim>\<open>b/\<close>, the only one that sets a file (line 86).\<close>

definition names_new_file :: "string \<Rightarrow> bool" where
  "names_new_file raw \<longleftrightarrow> startswith (rstrip_nl raw) ''+++ b/''"

text \<open>A line with the prefix that the test of line 88 looks for.\<close>

definition is_old_path :: "string \<Rightarrow> bool" where
  "is_old_path raw \<longleftrightarrow> startswith (rstrip_nl raw) ''--- ''"

text \<open>The first test of line 92.\<close>

definition has_binary_marker :: "string \<Rightarrow> bool" where
  "has_binary_marker raw \<longleftrightarrow> contains ''Binary files'' (rstrip_nl raw)"

text \<open>
  A line that reaches the \<^verbatim>\<open>try\<close> block of line 98: it starts with the hunk
  marker and the test for binary content (line 92) has not taken it before.
\<close>

definition is_hunk_header :: "string \<Rightarrow> bool" where
  "is_hunk_header raw \<longleftrightarrow>
     (let line = rstrip_nl raw
      in startswith line ''@@ '' \<and> \<not> contains ''Binary files'' line)"

text \<open>The two start numbers that such a line sets, when its parse succeeds.\<close>

definition hunk_starts :: "string \<Rightarrow> (int \<times> int) option" where
  "hunk_starts raw =
     (if is_hunk_header raw then
        (case parse_hunk (rstrip_nl raw) of Inl e \<Rightarrow> None | Inr p \<Rightarrow> Some p)
      else None)"



subsection \<open>Start numbers and line numbers\<close>




subsection \<open>Single-file diffs\<close>



subsection \<open>Two extractions in a row\<close>


section \<open>Properties\<close>

subsection \<open>Prefixes\<close>

lemma startswith_Nil [simp]: "startswith s []"
  by (simp add: startswith_def)

lemma startswith_Cons: "startswith s (p # ps) \<longleftrightarrow> (\<exists>t. s = p # t \<and> startswith t ps)"
  by (cases s) (auto simp: startswith_def)


subsection \<open>The end of the loop body\<close>


lemma content_guard:
  "cur_file c = None \<or> old_line c = None \<or> new_line c = None \<Longrightarrow> content c line = Inr (c, [])"
  by (simp add: content_def)


subsection \<open>One line\<close>

lemma step_file_sep: "is_file_sep raw \<Longrightarrow> step c raw = Inr (c\<lparr>cur_file := None\<rparr>, [])"
  by (simp add: step_def is_file_sep_def)




lemma step_binary:
  assumes "contains ''Binary files'' (rstrip_nl raw)"
    and "\<not> startswith (rstrip_nl raw) ''+++ ''" and "\<not> startswith (rstrip_nl raw) ''--- ''"
  shows "step c raw = Inr (c\<lparr>cur_file := None\<rparr>, [])"
  using assms by (simp add: step_def Let_def)

lemma step_hunk_header:
  "is_hunk_header raw \<Longrightarrow>
   step c raw =
     (case parse_hunk (rstrip_nl raw) of
        Inr (a, b) \<Rightarrow> Inr (c\<lparr>old_line := Some a, new_line := Some b\<rparr>, [])
      | Inl e \<Rightarrow> Inr (c\<lparr>old_line := None, new_line := None\<rparr>, []))"
  by (auto simp: step_def is_hunk_header_def Let_def startswith_Cons)

lemma step_valid_hunk:
  "hunk_starts h = Some (a, b) \<Longrightarrow>
   step c h = Inr (c\<lparr>old_line := Some a, new_line := Some b\<rparr>, [])"
  by (auto simp: hunk_starts_def step_hunk_header split: if_splits sum.splits)

lemma step_failed_hunk:
  "is_hunk_header raw \<Longrightarrow> parse_hunk (rstrip_nl raw) = Inl e \<Longrightarrow>
   step c raw = Inr (c\<lparr>old_line := None, new_line := None\<rparr>, [])"
  by (simp add: step_hunk_header)




text \<open>Without a file, a line that names none yields nothing and leaves the file unset.\<close>

lemma step_no_file:
  assumes "cur_file c = None" and "\<not> startswith (rstrip_nl raw) ''+++ b/''"
  shows "\<exists>c'. step c raw = Inr (c', []) \<and> cur_file c' = None"
  using assms content_guard [of c "rstrip_nl raw"]
  by (auto simp: step_def Let_def startswith_Cons split: sum.splits prod.splits)

text \<open>Without a counter, a line that sets none yields nothing.\<close>

lemma step_no_counters:
  assumes "old_line c = None \<or> new_line c = None" and "hunk_starts raw = None"
  shows "\<exists>c'. step c raw = Inr (c', []) \<and>
           (old_line c' = old_line c \<and> new_line c' = new_line c \<or>
            old_line c' = None \<and> new_line c' = None)"
  using assms content_guard [of c "rstrip_nl raw"]
  by (auto simp: step_def Let_def hunk_starts_def is_hunk_header_def
      split: sum.splits prod.splits if_splits)

lemma step_not_hunk_counters:
  assumes "old_line c = None \<or> new_line c = None" and "\<not> is_hunk_header raw"
  shows "\<exists>c'. step c raw = Inr (c', []) \<and> old_line c' = old_line c \<and> new_line c' = new_line c"
  using assms content_guard [of c "rstrip_nl raw"]
  by (auto simp: step_def Let_def is_hunk_header_def split: sum.splits prod.splits if_splits)

subsection \<open>The whole loop\<close>


lemma run_append:
  "run c (xs @ ys) =
     (case run c xs of
        Inl e \<Rightarrow> Inl e
      | Inr (c', out) \<Rightarrow>
          (case run c' ys of
             Inl e \<Rightarrow> Inl e
           | Inr (c'', outs) \<Rightarrow> Inr (c'', out @ outs)))"
  by (induction xs arbitrary: c) (auto split: sum.splits)

lemma run_no_file:
  assumes "cur_file c = None" and "\<forall>l \<in> set ls. \<not> startswith (rstrip_nl l) ''+++ b/''"
  shows "\<exists>c'. run c ls = Inr (c', []) \<and> cur_file c' = None"
  using assms
proof (induction ls arbitrary: c)
  case Nil
  then show ?case by simp
next
  case (Cons raw rest)
  from Cons.prems obtain c1 where s: "step c raw = Inr (c1, [])" and f: "cur_file c1 = None"
    using step_no_file [of c raw] by auto
  from Cons.IH [OF f] Cons.prems(2) obtain c2 where
    "run c1 rest = Inr (c2, [])" "cur_file c2 = None"
    by auto
  with s show ?case by simp
qed

lemma run_no_counters:
  assumes "old_line c = None \<and> new_line c = None" and "\<forall>l \<in> set ls. hunk_starts l = None"
  shows "\<exists>c'. run c ls = Inr (c', []) \<and> old_line c' = None \<and> new_line c' = None"
  using assms
proof (induction ls arbitrary: c)
  case Nil
  then show ?case by simp
next
  case (Cons raw rest)
  from Cons.prems obtain c1 where s: "step c raw = Inr (c1, [])"
    and f: "old_line c1 = None \<and> new_line c1 = None"
    using step_no_counters [of c raw] by auto
  from Cons.IH [OF f] Cons.prems(2) obtain c2 where
    "run c1 rest = Inr (c2, [])" "old_line c2 = None \<and> new_line c2 = None"
    by auto
  with s show ?case by simp
qed

lemma run_not_hunk_counters:
  assumes "old_line c = None \<or> new_line c = None" and "\<forall>l \<in> set ls. \<not> is_hunk_header l"
  shows "\<exists>c'. run c ls = Inr (c', []) \<and> old_line c' = old_line c \<and> new_line c' = new_line c"
  using assms
proof (induction ls arbitrary: c)
  case Nil
  then show ?case by simp
next
  case (Cons raw rest)
  from Cons.prems obtain c1 where s: "step c raw = Inr (c1, [])"
    and f: "old_line c1 = old_line c" "new_line c1 = new_line c"
    using step_not_hunk_counters [of c raw] by auto
  from f Cons.prems(1) have "old_line c1 = None \<or> new_line c1 = None" by simp
  from Cons.IH [OF this] Cons.prems(2) obtain c2 where
    "run c1 rest = Inr (c2, [])" "old_line c2 = old_line c1 \<and> new_line c2 = new_line c1"
    by auto
  with s f show ?case by simp
qed

subsection \<open>No exception\<close>


subsection \<open>The opening line of a file section\<close>

text \<open>
  Claim C2, as stated, fails: a \<^verbatim>\<open>diff --git\<close> line does not clear the counters.
  After a hunk of file \<^verbatim>\<open>a\<close> and two consecutive \<^verbatim>\<open>diff --git\<close> lines, the
  first content line of file \<^verbatim>\<open>c\<close>, which has no hunk header of its own, is
  numbered 8 by the counter that the hunk of \<^verbatim>\<open>a\<close> left behind.
\<close>

theorem stale_counters_after_file_sep:
  "iter_changes
     [''+++ b/a'', ''@@ -7 +7 @@'', ''+x'',
      ''diff --git a/b b/b'', ''diff --git a/c b/c'', ''+++ b/c'', ''+y''] =
   Inr [\<lparr>ch_file = ''a'', ch_line = 7, ch_type = Add, ch_text = ''x''\<rparr>,
        \<lparr>ch_file = ''c'', ch_line = 8, ch_type = Add, ch_text = ''y''\<rparr>]"
  by code_simp

text \<open>
  Claim C2, amended. In every cursor, a line that begins with \<^verbatim>\<open>diff --git \<close>
  unsets the current file, yields nothing and leaves both counters as they are; so do two
  such lines in a row: no dict is yielded for the empty section, the file is unset, and
  the counters still hold what they held before.
\<close>

theorem file_sep_resets_file_only:
  assumes "is_file_sep raw" and "is_file_sep raw'"
  shows "step c raw = Inr (c\<lparr>cur_file := None\<rparr>, []) \<and>
         run c [raw, raw'] = Inr (c\<lparr>cur_file := None\<rparr>, [])"
  using assms by (simp add: step_file_sep)

text \<open>The amended claim at a cursor with a file and both counters set.\<close>

theorem file_sep_resets_file_only_witness:
  "is_file_sep ''diff --git a/x b/x'' \<and> is_file_sep ''diff --git a/y b/y'' \<and>
   step \<lparr>cur_file = Some ''w'', old_line = Some 3, new_line = Some 4\<rparr> ''diff --git a/x b/x'' =
     Inr (\<lparr>cur_file = None, old_line = Some 3, new_line = Some 4\<rparr>, []) \<and>
   run \<lparr>cur_file = Some ''w'', old_line = Some 3, new_line = Some 4\<rparr>
     [''diff --git a/x b/x'', ''diff --git a/y b/y''] =
     Inr (\<lparr>cur_file = None, old_line = Some 3, new_line = Some 4\<rparr>, [])"
proof -
  have h1: "is_file_sep ''diff --git a/x b/x''" by code_simp
  have h2: "is_file_sep ''diff --git a/y b/y''" by code_simp
  have e: "\<lparr>cur_file = Some ''w'', old_line = Some 3, new_line = Some 4\<rparr>\<lparr>cur_file := None\<rparr> =
      \<lparr>cur_file = None, old_line = Some 3, new_line = Some 4\<rparr>"
    by simp
  show ?thesis
    using file_sep_resets_file_only
      [OF h1 h2, of "\<lparr>cur_file = Some ''w'', old_line = Some 3, new_line = Some 4\<rparr>"] h1 h2
    unfolding e by blast
qed

subsection \<open>Lines between the file header and the first hunk header\<close>

text \<open>
  Claim C3, as stated, fails in a file section that follows a hunk: the counters of the
  earlier section are still set, so the stray line \<^verbatim>\<open>+stray\<close> after the header of
  file \<^verbatim>\<open>b\<close> and before its first hunk header is yielded, numbered 8.
\<close>

theorem stray_line_numbered_by_stale_counter:
  "iter_changes
     [''diff --git a/a b/a'', ''--- a/a'', ''+++ b/a'', ''@@ -7 +7 @@'', ''+x'',
      ''diff --git a/b b/b'', ''--- a/b'', ''+++ b/b'', ''+stray'', ''@@ -1 +1 @@'', ''+y''] =
   Inr [\<lparr>ch_file = ''a'', ch_line = 7, ch_type = Add, ch_text = ''x''\<rparr>,
        \<lparr>ch_file = ''b'', ch_line = 8, ch_type = Add, ch_text = ''stray''\<rparr>,
        \<lparr>ch_file = ''b'', ch_line = 1, ch_type = Add, ch_text = ''y''\<rparr>]"
  by code_simp

text \<open>
  Claim C3, amended. While a counter is undefined, as both are from the start of an input
  up to its first parsed hunk header, the lines before the next hunk header yield no
  dict and leave the counters as they are. The hunk header that follows and parses then
  sets both counters to its own start numbers, so the stray lines shift nothing in the
  numbering of that hunk.
\<close>

theorem stray_lines_before_first_hunk:
  assumes "old_line c = None \<or> new_line c = None"
    and "\<forall>l \<in> set stray. \<not> is_hunk_header l"
    and "hunk_starts h = Some (a, b)"
  shows "\<exists>c'. run c stray = Inr (c', []) \<and>
           old_line c' = old_line c \<and> new_line c' = new_line c \<and>
           run c (stray @ [h]) = Inr (c'\<lparr>old_line := Some a, new_line := Some b\<rparr>, [])"
proof -
  from run_not_hunk_counters [OF assms(1,2)] obtain c' where
    r: "run c stray = Inr (c', [])" and k: "old_line c' = old_line c" "new_line c' = new_line c"
    by blast
  have "run c (stray @ [h]) = Inr (c'\<lparr>old_line := Some a, new_line := Some b\<rparr>, [])"
    by (simp add: run_append r step_valid_hunk [OF assms(3)])
  with r k show ?thesis by blast
qed

text \<open>
  The amended claim in the first file section: the file is set, no hunk header has been
  seen, two stray lines come before the header \<^verbatim>\<open>@@ -3 +4 @@\<close>.
\<close>

theorem stray_lines_before_first_hunk_witness:
  "old_line \<lparr>cur_file = Some ''f'', old_line = None, new_line = None\<rparr> = None \<and>
   \<not> is_hunk_header ''index 1..2'' \<and> \<not> is_hunk_header ''+stray'' \<and>
   hunk_starts ''@@ -3 +4 @@'' = Some (3, 4) \<and>
   run \<lparr>cur_file = Some ''f'', old_line = None, new_line = None\<rparr>
     ([''index 1..2'', ''+stray''] @ [''@@ -3 +4 @@'']) =
     Inr (\<lparr>cur_file = Some ''f'', old_line = Some 3, new_line = Some 4\<rparr>, [])"
proof -
  let ?c = "\<lparr>cur_file = Some ''f'', old_line = None, new_line = None\<rparr>"
  have h1: "old_line ?c = None \<or> new_line ?c = None" by simp
  have n1: "\<not> is_hunk_header ''index 1..2''" by code_simp
  have n2: "\<not> is_hunk_header ''+stray''" by code_simp
  from n1 n2 have h2: "\<forall>l \<in> set [''index 1..2'', ''+stray'']. \<not> is_hunk_header l" by simp
  have h3: "hunk_starts ''@@ -3 +4 @@'' = Some (3, 4)" by code_simp
  from stray_lines_before_first_hunk [OF h1 h2 h3] obtain c' where
    "run ?c [''index 1..2'', ''+stray''] = Inr (c', [])"
    "run ?c ([''index 1..2'', ''+stray''] @ [''@@ -3 +4 @@'']) =
       Inr (c'\<lparr>old_line := Some 3, new_line := Some 4\<rparr>, [])"
    by blast
  moreover have "run ?c [''index 1..2'', ''+stray''] = Inr (?c, [])" by code_simp
  ultimately have
    "run ?c ([''index 1..2'', ''+stray''] @ [''@@ -3 +4 @@'']) =
       Inr (?c\<lparr>old_line := Some 3, new_line := Some 4\<rparr>, [])"
    by (simp del: run.simps)
  moreover have "?c\<lparr>old_line := Some 3, new_line := Some 4\<rparr> =
      \<lparr>cur_file = Some ''f'', old_line = Some 3, new_line = Some 4\<rparr>"
    by simp
  ultimately show ?thesis using n1 n2 h3 by (simp del: run.simps append.simps)
qed

subsection \<open>A hunk header that does not parse\<close>

text \<open>
  Claim C7, as stated, fails for a line that starts with \<^verbatim>\<open>@@ \<close>, does not parse
  and contains \<^verbatim>\<open>Binary files\<close>: the test of line 92 takes it first, so the
  counters stay set, and after the next file header the content line \<^verbatim>\<open>+y\<close> is
  yielded with the number of the earlier hunk.
\<close>

theorem unparsed_hunk_line_keeps_counters:
  "startswith ''@@ Binary files'' ''@@ '' \<and>
   parse_hunk ''@@ Binary files'' = Inl ValueError \<and>
   iter_changes [''+++ b/a'', ''@@ -3 +3 @@'', ''@@ Binary files'', ''+++ b/b'', ''+y''] =
     Inr [\<lparr>ch_file = ''b'', ch_line = 3, ch_type = Add, ch_text = ''y''\<rparr>]"
  by code_simp

text \<open>
  Claim C7, amended. When a line that starts with \<^verbatim>\<open>@@ \<close> and does not contain
  \<^verbatim>\<open>Binary files\<close> cannot be parsed into the two start numbers, both counters
  become undefined and no error is raised; every line after it yields no dict, as long
  as no such line parses; and the next one that parses sets both counters to its start
  numbers.
\<close>

theorem failed_hunk_header_drops_content:
  assumes "is_hunk_header raw" and "parse_hunk (rstrip_nl raw) = Inl e"
    and "\<forall>l \<in> set ls. hunk_starts l = None"
    and "hunk_starts h = Some (a, b)"
  shows "step c raw = Inr (c\<lparr>old_line := None, new_line := None\<rparr>, []) \<and>
         (\<exists>c'. run c (raw # ls) = Inr (c', []) \<and> old_line c' = None \<and> new_line c' = None \<and>
               run c (raw # ls @ [h]) = Inr (c'\<lparr>old_line := Some a, new_line := Some b\<rparr>, []))"
proof -
  let ?c0 = "c\<lparr>old_line := None, new_line := None\<rparr>"
  have s: "step c raw = Inr (?c0, [])"
    using assms(1,2) by (rule step_failed_hunk)
  have "old_line ?c0 = None \<and> new_line ?c0 = None" by simp
  from run_no_counters [OF this assms(3)] obtain c' where
    r: "run ?c0 ls = Inr (c', [])" and k: "old_line c' = None" "new_line c' = None"
    by blast
  have r1: "run c (raw # ls) = Inr (c', [])"
    by (simp add: s r)
  have "run c ((raw # ls) @ [h]) = Inr (c'\<lparr>old_line := Some a, new_line := Some b\<rparr>, [])"
    unfolding run_append [of c "raw # ls" "[h]"] r1
    by (simp add: step_valid_hunk [OF assms(4)])
  then have "run c (raw # ls @ [h]) = Inr (c'\<lparr>old_line := Some a, new_line := Some b\<rparr>, [])"
    by simp
  with s r1 k show ?thesis by blast
qed

text \<open>
  The amended claim at a truncated header: the two content lines after it are dropped,
  and the header \<^verbatim>\<open>@@ -5 +6 @@\<close> sets the counters again.
\<close>

theorem failed_hunk_header_drops_content_witness:
  "is_hunk_header ''@@ -1,2 @@'' \<and> parse_hunk (rstrip_nl ''@@ -1,2 @@'') = Inl ValueError \<and>
   hunk_starts ''+dropped'' = None \<and> hunk_starts ''-dropped'' = None \<and>
   hunk_starts ''@@ -5 +6 @@'' = Some (5, 6) \<and>
   run \<lparr>cur_file = Some ''f'', old_line = Some 1, new_line = Some 1\<rparr>
     (''@@ -1,2 @@'' # [''+dropped'', ''-dropped''] @ [''@@ -5 +6 @@'']) =
     Inr (\<lparr>cur_file = Some ''f'', old_line = Some 5, new_line = Some 6\<rparr>, [])"
proof -
  let ?c = "\<lparr>cur_file = Some ''f'', old_line = Some 1, new_line = Some 1\<rparr>"
  have h1: "is_hunk_header ''@@ -1,2 @@''" by code_simp
  have h2: "parse_hunk (rstrip_nl ''@@ -1,2 @@'') = Inl ValueError" by code_simp
  have n1: "hunk_starts ''+dropped'' = None" by code_simp
  have n2: "hunk_starts ''-dropped'' = None" by code_simp
  from n1 n2 have h3: "\<forall>l \<in> set [''+dropped'', ''-dropped'']. hunk_starts l = None" by simp
  have h4: "hunk_starts ''@@ -5 +6 @@'' = Some (5, 6)" by code_simp
  from failed_hunk_header_drops_content [OF h1 h2 h3 h4, of ?c] obtain c' where
    "run ?c (''@@ -1,2 @@'' # [''+dropped'', ''-dropped'']) = Inr (c', [])"
    "run ?c (''@@ -1,2 @@'' # [''+dropped'', ''-dropped''] @ [''@@ -5 +6 @@'']) =
       Inr (c'\<lparr>old_line := Some 5, new_line := Some 6\<rparr>, [])"
    by blast
  moreover have "run ?c (''@@ -1,2 @@'' # [''+dropped'', ''-dropped'']) =
      Inr (\<lparr>cur_file = Some ''f'', old_line = None, new_line = None\<rparr>, [])"
    by code_simp
  ultimately have
    "run ?c (''@@ -1,2 @@'' # [''+dropped'', ''-dropped''] @ [''@@ -5 +6 @@'']) =
       Inr (\<lparr>cur_file = Some ''f'', old_line = None, new_line = None\<rparr>
              \<lparr>old_line := Some 5, new_line := Some 6\<rparr>, [])"
    by (simp del: run.simps)
  moreover have "\<lparr>cur_file = Some ''f'', old_line = None, new_line = None\<rparr>
        \<lparr>old_line := Some 5, new_line := Some 6\<rparr> =
      \<lparr>cur_file = Some ''f'', old_line = Some 5, new_line = Some 6\<rparr>"
    by simp
  ultimately show ?thesis using h1 h2 n1 n2 h4 by (simp del: run.simps append.simps)
qed

subsection \<open>The marker of binary content\<close>

text \<open>
  Claim C10, as stated, fails for a line that the tests of lines 84 and 88 take before
  the test for \<^verbatim>\<open>Binary files\<close> is made: the line
  \<^verbatim>\<open>--- a/Binary files\<close> contains the marker, the file stays set, and the
  deletion after it is yielded.
\<close>

theorem old_path_line_with_binary_marker:
  "contains ''Binary files'' ''--- a/Binary files'' \<and>
   iter_changes [''+++ b/a'', ''@@ -1 +1 @@'', ''--- a/Binary files'', ''-y''] =
     Inr [\<lparr>ch_file = ''a'', ch_line = 1, ch_type = Del, ch_text = ''y''\<rparr>]"
  by code_simp

text \<open>
  Claim C10, amended. A line that contains \<^verbatim>\<open>Binary files\<close> and starts neither
  with \<^verbatim>\<open>+++ \<close> nor with \<^verbatim>\<open>--- \<close>, a content line such as
  \<^verbatim>\<open>-Binary files a and b differ\<close> included, unsets the current file and yields
  no dict; every line after it is dropped until a \<^verbatim>\<open>+++ b/\<close> header sets a file
  again.
\<close>

theorem binary_marker_drops_section:
  assumes "has_binary_marker raw" and "\<not> is_new_path raw" and "\<not> is_old_path raw"
    and "\<forall>l \<in> set ls. \<not> names_new_file l"
  shows "step c raw = Inr (c\<lparr>cur_file := None\<rparr>, []) \<and>
         (\<exists>c'. run c (raw # ls) = Inr (c', []) \<and> cur_file c' = None)"
proof -
  have s: "step c raw = Inr (c\<lparr>cur_file := None\<rparr>, [])"
    using assms(1-3)
    by (simp add: step_binary has_binary_marker_def is_new_path_def is_old_path_def)
  have "cur_file (c\<lparr>cur_file := None\<rparr>) = None" by simp
  moreover from assms(4) have "\<forall>l \<in> set ls. \<not> startswith (rstrip_nl l) ''+++ b/''"
    by (simp add: names_new_file_def)
  ultimately obtain c' where "run (c\<lparr>cur_file := None\<rparr>) ls = Inr (c', [])" "cur_file c' = None"
    using run_no_file by blast
  with s show ?thesis by simp
qed

text \<open>
  The amended claim at the content line of the claim, inside a hunk: the addition, the
  hunk header and the deletion after it yield nothing.
\<close>

theorem binary_marker_drops_section_witness:
  "has_binary_marker ''-Binary files a and b differ'' \<and>
   \<not> is_new_path ''-Binary files a and b differ'' \<and>
   \<not> is_old_path ''-Binary files a and b differ'' \<and>
   \<not> names_new_file ''+x'' \<and> \<not> names_new_file ''@@ -4 +4 @@'' \<and> \<not> names_new_file ''-y'' \<and>
   step \<lparr>cur_file = Some ''f'', old_line = Some 1, new_line = Some 1\<rparr>
     ''-Binary files a and b differ'' =
     Inr (\<lparr>cur_file = None, old_line = Some 1, new_line = Some 1\<rparr>, []) \<and>
   run \<lparr>cur_file = Some ''f'', old_line = Some 1, new_line = Some 1\<rparr>
     (''-Binary files a and b differ'' # [''+x'', ''@@ -4 +4 @@'', ''-y'']) =
     Inr (\<lparr>cur_file = None, old_line = Some 4, new_line = Some 4\<rparr>, [])"
proof -
  let ?c = "\<lparr>cur_file = Some ''f'', old_line = Some 1, new_line = Some 1\<rparr>"
  have h1: "has_binary_marker ''-Binary files a and b differ''" by code_simp
  have h2: "\<not> is_new_path ''-Binary files a and b differ''" by code_simp
  have h3: "\<not> is_old_path ''-Binary files a and b differ''" by code_simp
  have n1: "\<not> names_new_file ''+x''" by code_simp
  have n2: "\<not> names_new_file ''@@ -4 +4 @@''" by code_simp
  have n3: "\<not> names_new_file ''-y''" by code_simp
  from n1 n2 n3 have h4: "\<forall>l \<in> set [''+x'', ''@@ -4 +4 @@'', ''-y'']. \<not> names_new_file l"
    by simp
  from binary_marker_drops_section [OF h1 h2 h3 h4, of ?c]
  have "step ?c ''-Binary files a and b differ'' = Inr (?c\<lparr>cur_file := None\<rparr>, [])"
    by blast
  moreover have "?c\<lparr>cur_file := None\<rparr> =
      \<lparr>cur_file = None, old_line = Some 1, new_line = Some 1\<rparr>"
    by simp
  ultimately have s: "step ?c ''-Binary files a and b differ'' =
      Inr (\<lparr>cur_file = None, old_line = Some 1, new_line = Some 1\<rparr>, [])"
    by (simp only:)
  have r: "run \<lparr>cur_file = None, old_line = Some 1, new_line = Some 1\<rparr>
      [''+x'', ''@@ -4 +4 @@'', ''-y''] =
      Inr (\<lparr>cur_file = None, old_line = Some 4, new_line = Some 4\<rparr>, [])"
    by code_simp
  have "run ?c (''-Binary files a and b differ'' # [''+x'', ''@@ -4 +4 @@'', ''-y'']) =
      Inr (\<lparr>cur_file = None, old_line = Some 4, new_line = Some 4\<rparr>, [])"
    by (simp only: run.simps(2) [of ?c] s r sum.case prod.case append_Nil)
  with s h1 h2 h3 n1 n2 n3 show ?thesis by blast
qed

subsection \<open>Line numbers\<close>











subsection \<open>Two additions, two deletions\<close>







subsection \<open>Concatenated diffs\<close>







subsection \<open>Two extractions of one input\<close>


end
